theory Spec2Isabelle
  imports Main "HOL-Library.Word"
begin

unbundle bit_operations_syntax

section \<open>Memory\<close>

text \<open>
  The routines of \<^verbatim>\<open>aklog-kafs.c\<close> work on \<^verbatim>\<open>unsigned char\<close> buffers through raw
  pointers, and \<^verbatim>\<open>derive_key\<close> passes the same pointer as source and destination.
  Memory is therefore an explicit store from byte addresses to bytes, and a pointer is
  an address.
\<close>

type_synonym byte = "8 word"
type_synonym addr = nat
type_synonym heap = "addr \<Rightarrow> byte"

text \<open>The \<open>n\<close> bytes starting at address \<open>p\<close>.\<close>

definition load :: "heap \<Rightarrow> addr \<Rightarrow> nat \<Rightarrow> byte list" where
  "load h p n = map h [p..<p + n]"

section \<open>Stripping the Triple-DES parity bits\<close>

text \<open>
  \<^verbatim>\<open>
  lsbs = k[7] >> 1;
  for (i = 0; i < 7; i++) {
          r[i] = (k[i] & 0xfe) | (lsbs & 0x1);
          lsbs >>= 1;
  }
  \<close>
  The body of the \<^verbatim>\<open>for\<close> loop, from counter \<open>i\<close> on: \<open>r\<close> and \<open>k\<close> are the two
  pointers, \<open>lsbs\<close> the remaining parity-position bits.
\<close>

function strip_loop :: "addr \<Rightarrow> addr \<Rightarrow> nat \<Rightarrow> byte \<Rightarrow> heap \<Rightarrow> heap" where
  "strip_loop r k i lsbs h =
     (if i < 7
      then strip_loop r k (i + 1) (drop_bit 1 lsbs)
             (h(r + i := (h (k + i) AND 0xfe) OR (lsbs AND 0x1)))
      else h)"
  by pat_completeness auto
termination
  by (relation "measure (\<lambda>(r, k, i, lsbs, h). 7 - i)") auto

definition des3_strip_parity_bits :: "addr \<Rightarrow> addr \<Rightarrow> heap \<Rightarrow> heap" where
  "des3_strip_parity_bits random key h = strip_loop random key 0 (drop_bit 1 (h (key + 7))) h"

section \<open>Triple-DES key to random string\<close>

text \<open>
  \<^verbatim>\<open>
  unsigned int new_len = 0;
  while (len > 8) {
          des3_strip_parity_bits(random, key);
          key += 8;  random += 7;  len -= 8;  new_len += 7;
  }
  return new_len;
  \<close>
  The loop, with \<open>new_len\<close> as accumulator. \<open>len\<close> only decreases and is above 8 when 8
  is subtracted, and \<open>new_len\<close> stays below the initial \<open>len\<close>, so neither
  \<^verbatim>\<open>unsigned int\<close> wraps and both are natural numbers here.
\<close>

function key_to_random_loop :: "addr \<Rightarrow> addr \<Rightarrow> nat \<Rightarrow> nat \<Rightarrow> heap \<Rightarrow> heap \<times> nat" where
  "key_to_random_loop random key len new_len h =
     (if len > 8
      then key_to_random_loop (random + 7) (key + 8) (len - 8) (new_len + 7)
             (des3_strip_parity_bits random key h)
      else (h, new_len))"
  by pat_completeness auto
termination
  by (relation "measure (\<lambda>(random, key, len, new_len, h). len)") auto

definition des3_key_to_random :: "addr \<Rightarrow> addr \<Rightarrow> nat \<Rightarrow> heap \<Rightarrow> heap \<times> nat" where
  "des3_key_to_random random key len h = key_to_random_loop random key len 0 h"

section \<open>Errors\<close>

text \<open>
  Every failure of the program is a message on \<^verbatim>\<open>stderr\<close> followed by \<^verbatim>\<open>exit(1)\<close>.
  The constructors name the failing check:
  \<^item> \<open>InvalidKeyLength\<close>: "DES session key not 8 octets." and
    "3DES session key not multiple of 8 octets.";
  \<^item> \<open>Unsupported\<close>: label \<^verbatim>\<open>not_supported\<close>; \<open>Deprecated\<close>: label \<^verbatim>\<open>deprecated\<close>;
    \<open>KeyTooShort\<close>: label \<^verbatim>\<open>key_too_short\<close>;
  \<^item> \<open>CryptoPrimitiveFailure\<close>: \<^verbatim>\<open>crypto_error("HMAC")\<close> reaching its \<^verbatim>\<open>exit(1)\<close>, and
    "HMAC returned short result";
  \<^item> \<open>KdfExhausted\<close>: "Unable to derive strong DES key".
\<close>

datatype error =
  InvalidKeyLength | Unsupported | Deprecated | KeyTooShort | CryptoPrimitiveFailure | KdfExhausted

section \<open>The environment: OpenSSL, the stack, the allocator and the keyring\<close>

text \<open>
  What one call \<^verbatim>\<open>HMAC(algo, key, key_len, data, data_len, buf.md5, &len)\<close> does:
  \<^item> \<open>HMAC_NULL queued md_len stored\<close>: it returns \<^verbatim>\<open>NULL\<close>. \<open>queued\<close> tells whether
    \<^verbatim>\<open>ERR_peek_error()\<close> is then non-zero. \<open>md_len\<close> is the value of \<^verbatim>\<open>len\<close> on return: the
    caller has set it to \<^verbatim>\<open>sizeof(buf.md5)\<close>, 16, and what a failing call leaves there is
    the library's choice (OpenSSL 3 resets it to 0, a library that gives up before
    touching it leaves 16). \<open>stored\<close> are the bytes the call has put at the start of
    \<^verbatim>\<open>buf.md5\<close> before it failed, none when it leaves \<^verbatim>\<open>buf\<close> alone;
  \<^item> \<open>HMAC_md d\<close>: it stores the digest \<open>d\<close> at \<^verbatim>\<open>buf.md5\<close> and sets \<^verbatim>\<open>len\<close> to the
    length of \<open>d\<close>.
\<close>

datatype hmac_result = HMAC_NULL bool nat "byte list" | HMAC_md "byte list"

text \<open>
  \<^item> \<open>HMAC\<close>: the keyed hash, from key and message;
  \<^item> \<open>DES_is_weak_key\<close>: the library's test for weak and semi-weak DES keys;
  \<^item> \<open>stack\<close>: the indeterminate bytes that the uninitialised local \<^verbatim>\<open>buf\<close> of
    \<^verbatim>\<open>key_derivation_function\<close> holds on entry;
  \<^item> \<open>calloc_ok\<close>: whether \<^verbatim>\<open>calloc\<close> returns a buffer;
  \<^item> \<open>add_key_ret\<close>: what \<^verbatim>\<open>add_key\<close> returns.
\<close>

record env =
  HMAC :: "byte list \<Rightarrow> byte list \<Rightarrow> hmac_result"
  DES_is_weak_key :: "byte list \<Rightarrow> bool"
  stack :: "nat \<Rightarrow> byte"
  calloc_ok :: bool
  add_key_ret :: int

text \<open>The number of one bits of a byte, and odd parity.\<close>

definition popcount :: "byte \<Rightarrow> nat" where
  "popcount b = (\<Sum>i\<leftarrow>[0..<8]. of_bool (bit b i))"

definition has_odd_parity :: "byte \<Rightarrow> bool" where
  "has_odd_parity b = odd (popcount b)"

text \<open>
  Modelled from the spec: \<^verbatim>\<open>DES_set_odd_parity\<close> is OpenSSL's and not part of the
  sources. Section 4.4 step d and the glossary: each byte's parity bit is forced so that
  the byte has an odd number of one bits, by adjusting the low bit.
\<close>

definition odd_parity_byte :: "byte \<Rightarrow> byte" where
  "odd_parity_byte b = (b AND 0xfe) OR (if even (popcount (b AND 0xfe)) then 1 else 0)"

definition DES_set_odd_parity :: "byte list \<Rightarrow> byte list" where
  "DES_set_odd_parity key = map odd_parity_byte key"

text \<open>
  The four weak and twelve semi-weak keys of DES, the usual content of the table behind
  the library's weak-key test. The theorems hold for any test; this table instantiates
  it in the examples.
\<close>

definition des_weak_keys :: "byte list list" where
  "des_weak_keys =
    [[0x01, 0x01, 0x01, 0x01, 0x01, 0x01, 0x01, 0x01],
     [0xFE, 0xFE, 0xFE, 0xFE, 0xFE, 0xFE, 0xFE, 0xFE],
     [0x1F, 0x1F, 0x1F, 0x1F, 0x0E, 0x0E, 0x0E, 0x0E],
     [0xE0, 0xE0, 0xE0, 0xE0, 0xF1, 0xF1, 0xF1, 0xF1],
     [0x01, 0xFE, 0x01, 0xFE, 0x01, 0xFE, 0x01, 0xFE],
     [0xFE, 0x01, 0xFE, 0x01, 0xFE, 0x01, 0xFE, 0x01],
     [0x1F, 0xE0, 0x1F, 0xE0, 0x0E, 0xF1, 0x0E, 0xF1],
     [0xE0, 0x1F, 0xE0, 0x1F, 0xF1, 0x0E, 0xF1, 0x0E],
     [0x01, 0xE0, 0x01, 0xE0, 0x01, 0xF1, 0x01, 0xF1],
     [0xE0, 0x01, 0xE0, 0x01, 0xF1, 0x01, 0xF1, 0x01],
     [0x1F, 0xFE, 0x1F, 0xFE, 0x0E, 0xFE, 0x0E, 0xFE],
     [0xFE, 0x1F, 0xFE, 0x1F, 0xFE, 0x0E, 0xFE, 0x0E],
     [0x01, 0x1F, 0x01, 0x1F, 0x01, 0x0E, 0x01, 0x0E],
     [0x1F, 0x01, 0x1F, 0x01, 0x0E, 0x01, 0x0E, 0x01],
     [0xE0, 0xFE, 0xE0, 0xFE, 0xF1, 0xFE, 0xF1, 0xFE],
     [0xFE, 0xE0, 0xFE, 0xE0, 0xFE, 0xF1, 0xFE, 0xF1]]"

section \<open>The key derivation function\<close>

text \<open>
  \<^verbatim>\<open>
  struct kdf_data { unsigned char i_2; unsigned char Label[6]; unsigned char L_2[4]; }
          __attribute__((packed));
  static const struct kdf_data rxkad_kdf_data = {
          .Label = "rxkad",           /* Including NUL separator */
          .L_2   = { 0, 0, 0, 64 },   /* BE integer */
  };
  \<close>
  The 11 bytes of the packed structure once \<^verbatim>\<open>kdf_data.i_2 = i\<close> is done; the assignment
  narrows the \<^verbatim>\<open>unsigned int\<close> counter to a byte.
\<close>

definition kdf_data :: "nat \<Rightarrow> byte list" where
  "kdf_data i =
     [of_nat i] @ map of_char ''rxkad'' @ [0] @ [0, 0, 0, 64]"

text \<open>
  One pass through lines 151 to 162: the \<^verbatim>\<open>HMAC\<close> call and the two checks after it,
  giving the new content of \<^verbatim>\<open>buf.des\<close> (the first 8 bytes of the union).
  \<^verbatim>\<open>crypto_error\<close> starts with \<^verbatim>\<open>if (ERR_peek_error() == 0) return;\<close> so it only exits
  when an error is queued; otherwise control comes back and the test
  \<^verbatim>\<open>if (len < sizeof(buf.des))\<close> of line 159 sees \<^verbatim>\<open>len\<close> as the failed call left it. Only
  when that is 8 or more does the loop go on, with \<^verbatim>\<open>buf\<close> as the failed call left it. A
  digest has at most the 16 bytes of \<^verbatim>\<open>buf.md5\<close>; only its first 8 are looked at.
\<close>

definition kdf_hmac :: "env \<Rightarrow> byte list \<Rightarrow> nat \<Rightarrow> byte list \<Rightarrow> error + byte list" where
  "kdf_hmac E key i buf =
     (case HMAC E key (kdf_data i) of
        HMAC_NULL queued md_len stored \<Rightarrow>
          if queued then Inl CryptoPrimitiveFailure
          else if md_len < 8 then Inl CryptoPrimitiveFailure
          else Inr (take 8 (stored @ drop (length stored) buf))
      | HMAC_md d \<Rightarrow> if length d < 8 then Inl CryptoPrimitiveFailure else Inr (take 8 d))"

text \<open>
  \<^verbatim>\<open>
  for (i = 1; i <= 255; i++) {
          ... HMAC and checks ...
          DES_set_odd_parity(&buf.des);
          if (!DES_is_weak_key(&buf.des))
                  goto success;
  }
  fprintf(stderr, "aklog: Unable to derive strong DES key\n");
  exit(1);
  success:
  memcpy(session_key, buf.des, sizeof(buf.des));
  \<close>
\<close>

function kdf_loop :: "env \<Rightarrow> byte list \<Rightarrow> nat \<Rightarrow> byte list \<Rightarrow> error + byte list" where
  "kdf_loop E key i buf =
     (if i \<le> 255
      then (case kdf_hmac E key i buf of
              Inl e \<Rightarrow> Inl e
            | Inr md \<Rightarrow>
                (let des = DES_set_odd_parity md
                 in if \<not> DES_is_weak_key E des then Inr des
                    else kdf_loop E key (i + 1) des))
      else Inl KdfExhausted)"
  by pat_completeness auto
termination
  by (relation "measure (\<lambda>(E, key, i, buf). 256 - i)") auto

text \<open>
  \<^verbatim>\<open>key_derivation_function(creds, session_key)\<close>: the HMAC key is the
  \<^verbatim>\<open>keyblock.length\<close> bytes at \<^verbatim>\<open>keyblock.contents\<close>, and \<^verbatim>\<open>buf\<close> starts out as
  whatever the stack holds. The result is the 8 bytes stored at \<^verbatim>\<open>session_key\<close>.
\<close>

record krb5_creds =
  keyblock_enctype :: int
  keyblock_length :: nat
  keyblock_contents :: addr
  times_endtime :: "32 word"
  ticket_data :: "byte list"

definition keyblock_bytes :: "heap \<Rightarrow> krb5_creds \<Rightarrow> byte list" where
  "keyblock_bytes h creds = load h (keyblock_contents creds) (keyblock_length creds)"

definition key_derivation_function :: "env \<Rightarrow> heap \<Rightarrow> krb5_creds \<Rightarrow> error + byte list" where
  "key_derivation_function E h creds =
     kdf_loop E (keyblock_bytes h creds) 1 (map (stack E) [0..<8])"

section \<open>Extracting or deriving the session key\<close>

text \<open>
  Modelled from the spec: the \<^verbatim>\<open>ENCTYPE_*\<close> constants are declared in
  \<^verbatim>\<open>krb5/krb5.h\<close>, which is not part of the sources. Section 4.1 only names the
  entries of the table; the numbers are the Kerberos encryption type numbers of that
  header, which leave the gap at 7 that the \<^verbatim>\<open>switch\<close> fills with a literal.
\<close>

definition ENCTYPE_NULL :: int where "ENCTYPE_NULL = 0"
definition ENCTYPE_DES_CBC_CRC :: int where "ENCTYPE_DES_CBC_CRC = 1"
definition ENCTYPE_DES_CBC_MD4 :: int where "ENCTYPE_DES_CBC_MD4 = 2"
definition ENCTYPE_DES_CBC_MD5 :: int where "ENCTYPE_DES_CBC_MD5 = 3"
definition ENCTYPE_DES_CBC_RAW :: int where "ENCTYPE_DES_CBC_RAW = 4"
definition ENCTYPE_DES3_CBC_SHA :: int where "ENCTYPE_DES3_CBC_SHA = 5"
definition ENCTYPE_DES3_CBC_RAW :: int where "ENCTYPE_DES3_CBC_RAW = 6"
definition ENCTYPE_DES_HMAC_SHA1 :: int where "ENCTYPE_DES_HMAC_SHA1 = 8"
definition ENCTYPE_DSA_SHA1_CMS :: int where "ENCTYPE_DSA_SHA1_CMS = 9"
definition ENCTYPE_MD5_RSA_CMS :: int where "ENCTYPE_MD5_RSA_CMS = 10"
definition ENCTYPE_SHA1_RSA_CMS :: int where "ENCTYPE_SHA1_RSA_CMS = 11"
definition ENCTYPE_RC2_CBC_ENV :: int where "ENCTYPE_RC2_CBC_ENV = 12"
definition ENCTYPE_RSA_ENV :: int where "ENCTYPE_RSA_ENV = 13"
definition ENCTYPE_RSA_ES_OAEP_ENV :: int where "ENCTYPE_RSA_ES_OAEP_ENV = 14"
definition ENCTYPE_DES3_CBC_ENV :: int where "ENCTYPE_DES3_CBC_ENV = 15"
definition ENCTYPE_DES3_CBC_SHA1 :: int where "ENCTYPE_DES3_CBC_SHA1 = 16"

text \<open>The case labels of the \<^verbatim>\<open>switch\<close> in \<^verbatim>\<open>derive_key\<close>, in source order.\<close>

definition enctype_table :: "int list" where
  "enctype_table =
    [ENCTYPE_NULL, ENCTYPE_DES_CBC_CRC, ENCTYPE_DES_CBC_MD4, ENCTYPE_DES_CBC_MD5,
     ENCTYPE_DES_CBC_RAW, ENCTYPE_DES3_CBC_SHA, ENCTYPE_DES3_CBC_RAW, 7,
     ENCTYPE_DES_HMAC_SHA1, ENCTYPE_DSA_SHA1_CMS, ENCTYPE_MD5_RSA_CMS, ENCTYPE_SHA1_RSA_CMS,
     ENCTYPE_RC2_CBC_ENV, ENCTYPE_RSA_ENV, ENCTYPE_RSA_ES_OAEP_ENV, ENCTYPE_DES3_CBC_ENV,
     ENCTYPE_DES3_CBC_SHA1]"

text \<open>The labels the \<^verbatim>\<open>switch\<close> jumps to.\<close>

datatype label =
  not_supported | just_copy | deprecated | des3_discard_parity | key_too_short | goto_derive_key

text \<open>
  The \<^verbatim>\<open>switch (creds->keyblock.enctype)\<close> with its \<^verbatim>\<open>default\<close> arm, which tests the
  length before the sign:
  \<^verbatim>\<open>
  default:
          if (length < 7)
                  goto key_too_short;
          if (creds->keyblock.enctype < 0)
                  goto not_supported;
          goto derive_key;
  \<close>
\<close>

definition enctype_switch :: "int \<Rightarrow> nat \<Rightarrow> label" where
  "enctype_switch enctype len =
     (if enctype = ENCTYPE_NULL then not_supported
      else if enctype = ENCTYPE_DES_CBC_CRC then just_copy
      else if enctype = ENCTYPE_DES_CBC_MD4 then just_copy
      else if enctype = ENCTYPE_DES_CBC_MD5 then just_copy
      else if enctype = ENCTYPE_DES_CBC_RAW then deprecated
      else if enctype = ENCTYPE_DES3_CBC_SHA then des3_discard_parity
      else if enctype = ENCTYPE_DES3_CBC_RAW then deprecated
      else if enctype = 7 then des3_discard_parity
      else if enctype = ENCTYPE_DES_HMAC_SHA1 then deprecated
      else if enctype = ENCTYPE_DSA_SHA1_CMS then not_supported
      else if enctype = ENCTYPE_MD5_RSA_CMS then not_supported
      else if enctype = ENCTYPE_SHA1_RSA_CMS then not_supported
      else if enctype = ENCTYPE_RC2_CBC_ENV then not_supported
      else if enctype = ENCTYPE_RSA_ENV then not_supported
      else if enctype = ENCTYPE_RSA_ES_OAEP_ENV then not_supported
      else if enctype = ENCTYPE_DES3_CBC_ENV then not_supported
      else if enctype = ENCTYPE_DES3_CBC_SHA1 then des3_discard_parity
      else if len < 7 then key_too_short
      else if enctype < 0 then not_supported
      else goto_derive_key)"

text \<open>
  The code at each label. A successful return gives the 8 bytes stored at
  \<^verbatim>\<open>session_key\<close> together with the memory and the credentials as they are left.
  \<^verbatim>\<open>des3_discard_parity\<close> passes \<^verbatim>\<open>creds->keyblock.contents\<close> as both arguments of
  \<^verbatim>\<open>des3_key_to_random\<close> and stores its result in \<^verbatim>\<open>creds->keyblock.length\<close>, then
  falls into the key derivation. \<^verbatim>\<open>length & 7\<close> is the remainder modulo 8.
\<close>

definition at_derive_key ::
  "env \<Rightarrow> heap \<Rightarrow> krb5_creds \<Rightarrow> error + (byte list \<times> heap \<times> krb5_creds)" where
  "at_derive_key E h creds =
     (case key_derivation_function E h creds of
        Inl e \<Rightarrow> Inl e
      | Inr session_key \<Rightarrow> Inr (session_key, h, creds))"

definition at_des3_discard_parity ::
  "env \<Rightarrow> heap \<Rightarrow> krb5_creds \<Rightarrow> nat \<Rightarrow> error + (byte list \<times> heap \<times> krb5_creds)" where
  "at_des3_discard_parity E h creds len =
     (if len mod 8 \<noteq> 0 then Inl InvalidKeyLength
      else (case des3_key_to_random (keyblock_contents creds) (keyblock_contents creds) len h of
              (h', new_len) \<Rightarrow> at_derive_key E h' (creds\<lparr>keyblock_length := new_len\<rparr>)))"

definition at_just_copy ::
  "heap \<Rightarrow> krb5_creds \<Rightarrow> nat \<Rightarrow> error + (byte list \<times> heap \<times> krb5_creds)" where
  "at_just_copy h creds len =
     (if len \<noteq> 8 then Inl InvalidKeyLength
      else Inr (load h (keyblock_contents creds) len, h, creds))"

definition derive_key ::
  "env \<Rightarrow> heap \<Rightarrow> krb5_creds \<Rightarrow> error + (byte list \<times> heap \<times> krb5_creds)" where
  "derive_key E h creds =
     (let len = keyblock_length creds
      in case enctype_switch (keyblock_enctype creds) len of
           not_supported \<Rightarrow> Inl Unsupported
         | just_copy \<Rightarrow> at_just_copy h creds len
         | deprecated \<Rightarrow> Inl Deprecated
         | des3_discard_parity \<Rightarrow> at_des3_discard_parity E h creds len
         | key_too_short \<Rightarrow> Inl KeyTooShort
         | goto_derive_key \<Rightarrow> at_derive_key E h creds)"

section \<open>Building the payload and adding the key\<close>

text \<open>
  \<^verbatim>\<open>
  struct rxrpc_key_sec2_v1 {
          uint32_t kver;  uint16_t security_index;  uint16_t ticket_length;
          uint32_t expiry;  uint32_t kvno;  uint8_t session_key[8];  uint8_t ticket[0];
  };
  \<close>
  \<open>ticket\<close> is what follows the header in the allocation.
\<close>

record rxrpc_key_sec2_v1 =
  kver :: "32 word"
  security_index :: "16 word"
  ticket_length :: "16 word"
  expiry :: "32 word"
  kvno :: "32 word"
  session_key :: "byte list"
  ticket :: "byte list"

definition RXKAD_TKT_TYPE_KERBEROS_V5 :: "32 word" where
  "RXKAD_TKT_TYPE_KERBEROS_V5 = 256"

text \<open>\<^verbatim>\<open>sizeof(struct rxrpc_key_sec2_v1)\<close>: the fields are naturally aligned, without padding.\<close>

definition sizeof_rxrpc_key_sec2_v1 :: nat where
  "sizeof_rxrpc_key_sec2_v1 = 4 + 2 + 2 + 4 + 4 + 8"

text \<open>
  How the process ends: the exit status and the calls of \<^verbatim>\<open>add_key\<close> made before, each
  with the payload and the length \<^verbatim>\<open>plen\<close> passed.
\<close>

datatype outcome = Exit int "(rxrpc_key_sec2_v1 \<times> nat) list"

text \<open>
  \<^verbatim>\<open>main\<close> from line 307 on, once \<^verbatim>\<open>krb5_get_credentials\<close> has returned the
  credentials. \<^verbatim>\<open>creds->ticket.length\<close> is the length of the ticket and an
  \<^verbatim>\<open>unsigned int\<close>; \<^verbatim>\<open>plen\<close> is a \<^verbatim>\<open>size_t\<close> and does not wrap, with 64 bits because the
  length has 32, with 32 bits because a ticket within 28 bytes of the whole address space
  cannot be in memory. The assignment to the \<^verbatim>\<open>uint16_t\<close> field \<^verbatim>\<open>ticket_length\<close> keeps the
  low 16 bits. \<^verbatim>\<open>calloc\<close> gives zeroed
  memory. The ticket lives in memory of its own, apart from the key block.
  \<^verbatim>\<open>
  plen = sizeof(*payload) + creds->ticket.length;
  payload = calloc(1, plen + 4);
  if (!payload) { perror("calloc"); exit(1); }
  payload->kver           = 1;
  payload->security_index = 2;
  payload->ticket_length  = creds->ticket.length;
  payload->expiry         = creds->times.endtime;
  payload->kvno           = RXKAD_TKT_TYPE_KERBEROS_V5;
  derive_key(creds, payload->session_key);
  memcpy(payload->ticket, creds->ticket.data, creds->ticket.length);
  ret = add_key("rxrpc", desc, payload, plen, KEY_SPEC_SESSION_KEYRING);
  OSERROR(ret, "add_key");
  ...
  exit(0);
  \<close>
\<close>

definition main_payload :: "krb5_creds \<Rightarrow> rxrpc_key_sec2_v1" where
  "main_payload creds =
     \<lparr>kver = 1,
      security_index = 2,
      ticket_length = of_nat (length (ticket_data creds)),
      expiry = times_endtime creds,
      kvno = RXKAD_TKT_TYPE_KERBEROS_V5,
      session_key = replicate 8 0,
      ticket = replicate (length (ticket_data creds)) 0\<rparr>"

definition main :: "env \<Rightarrow> heap \<Rightarrow> krb5_creds \<Rightarrow> outcome" where
  "main E h creds =
     (let plen = sizeof_rxrpc_key_sec2_v1 + length (ticket_data creds)
      in if \<not> calloc_ok E then Exit 1 []
         else (let payload = main_payload creds
               in case derive_key E h creds of
                    Inl e \<Rightarrow> Exit 1 []
                  | Inr (key, h', creds') \<Rightarrow>
                      (let payload' = payload\<lparr>session_key := key, ticket := ticket_data creds'\<rparr>
                       in if add_key_ret E = - 1 then Exit 1 [(payload', plen)]
                          else Exit 0 [(payload', plen)])))"

section \<open>Specification-level functions\<close>

text \<open>
  Byte \<open>n\<close> of the unweaved string of the key at \<open>k\<close>: byte \<open>n mod 7\<close> of the stripped
  block \<open>n div 7\<close>.
\<close>

definition stripped_byte :: "heap \<Rightarrow> addr \<Rightarrow> nat \<Rightarrow> byte" where
  "stripped_byte h k n =
     (h (k + 8 * (n div 7) + n mod 7) AND 0xfe) OR
     (drop_bit (n mod 7) (drop_bit 1 (h (k + 8 * (n div 7) + 7))) AND 1)"

text \<open>
  The key derivation as section 4.4 of the specification words it, over a keyed hash
  \<open>hmac_md5\<close> and a weak-key test \<open>weak\<close>: the input string is the counter byte, the
  6-byte label with its terminator and the big-endian 32-bit constant 64; the candidates
  for the counters 1 to 255 are the first 8 digest bytes with odd parity set; the first
  candidate that is not weak is the session key, and without one the derivation is
  exhausted.
\<close>

definition be32 :: "32 word \<Rightarrow> byte list" where
  "be32 n = [ucast (drop_bit 24 n), ucast (drop_bit 16 n), ucast (drop_bit 8 n), ucast n]"

definition kdf_input_string :: "nat \<Rightarrow> byte list" where
  "kdf_input_string i = of_nat i # (map of_char ''rxkad'' @ [0]) @ be32 64"

definition kdf_spec ::
  "(byte list \<Rightarrow> byte list \<Rightarrow> byte list) \<Rightarrow> (byte list \<Rightarrow> bool) \<Rightarrow> byte list
     \<Rightarrow> error + byte list" where
  "kdf_spec hmac_md5 weak key =
     (case find (\<lambda>c. \<not> weak c)
             (map (\<lambda>i. DES_set_odd_parity (take 8 (hmac_md5 key (kdf_input_string i))))
                [1..<256]) of
        Some c \<Rightarrow> Inr c
      | None \<Rightarrow> Inl KdfExhausted)"

section \<open>Example inputs\<close>

text \<open>
  A memory with a 24-byte key at address 0 and a copy of it at address 200, and a memory
  of zero bytes. A keyed hash that answers with 16 copies of the first message byte (the
  counter), so that counter 1 gives the weak key of all \<open>0x01\<close> and counter 2 a usable
  one, and a keyed hash that always answers with zero bytes, so that every candidate is
  that weak key. A library whose \<open>HMAC\<close> always ends in the given way, on a stack
  that holds \<open>02 00 00 00 00 00 00 00\<close>. Credentials with the key block at address 0 and
  a 4-byte ticket.
\<close>

definition ex_heap :: heap where
  "ex_heap a = (if a < 24 then of_nat (37 * a + 11)
                else if 200 \<le> a \<and> a < 224 then of_nat (37 * (a - 200) + 11) else 0)"

definition zero_heap :: heap where
  "zero_heap a = 0"

definition ex_md5 :: "byte list \<Rightarrow> byte list \<Rightarrow> byte list" where
  "ex_md5 key m = replicate 16 (hd m)"

definition ex_env :: env where
  "ex_env = \<lparr>HMAC = (\<lambda>key m. HMAC_md (ex_md5 key m)),
             DES_is_weak_key = (\<lambda>key. key \<in> set des_weak_keys),
             stack = (\<lambda>a. 0), calloc_ok = True, add_key_ret = 0\<rparr>"

definition ex_md5_zero :: "byte list \<Rightarrow> byte list \<Rightarrow> byte list" where
  "ex_md5_zero key m = replicate 16 0"

definition ex_env_weak :: env where
  "ex_env_weak = \<lparr>HMAC = (\<lambda>key m. HMAC_md (ex_md5_zero key m)),
             DES_is_weak_key = (\<lambda>key. key \<in> set des_weak_keys),
             stack = (\<lambda>a. 0), calloc_ok = True, add_key_ret = 0\<rparr>"


definition ex_creds :: "int \<Rightarrow> nat \<Rightarrow> krb5_creds" where
  "ex_creds enctype len =
     \<lparr>keyblock_enctype = enctype, keyblock_length = len, keyblock_contents = 0,
      times_endtime = 1700000000, ticket_data = [0xde, 0xad, 0xbe, 0xef]\<rparr>"

section \<open>Proofs\<close>

declare strip_loop.simps [simp del]
declare key_to_random_loop.simps [simp del]
declare kdf_loop.simps [simp del]

lemmas ENCTYPE_defs =
  ENCTYPE_NULL_def ENCTYPE_DES_CBC_CRC_def ENCTYPE_DES_CBC_MD4_def ENCTYPE_DES_CBC_MD5_def
  ENCTYPE_DES_CBC_RAW_def ENCTYPE_DES3_CBC_SHA_def ENCTYPE_DES3_CBC_RAW_def
  ENCTYPE_DES_HMAC_SHA1_def ENCTYPE_DSA_SHA1_CMS_def ENCTYPE_MD5_RSA_CMS_def
  ENCTYPE_SHA1_RSA_CMS_def ENCTYPE_RC2_CBC_ENV_def ENCTYPE_RSA_ENV_def
  ENCTYPE_RSA_ES_OAEP_ENV_def ENCTYPE_DES3_CBC_ENV_def ENCTYPE_DES3_CBC_SHA1_def

lemma upt_0_7: "[0..<7] = [0, 1, 2, 3, 4, 5, 6::nat]"
  by code_simp

lemma upt_0_8: "[0..<8] = [0, 1, 2, 3, 4, 5, 6, 7::nat]"
  by code_simp

lemma load_nth: "i < n \<Longrightarrow> load h p n ! i = h (p + i)"
  by (simp add: load_def)

lemma load_eqD:
  assumes "load h1 p n = load h2 q n" "i < n"
  shows "h1 (p + i) = h2 (q + i)"
  using load_nth [OF assms(2), of h1 p] load_nth [OF assms(2), of h2 q] assms(1) by simp

lemma load_eqI:
  assumes "\<And>i. i < n \<Longrightarrow> h1 (p + i) = h2 (q + i)"
  shows "load h1 p n = load h2 q n"
  by (rule nth_equalityI) (simp_all add: load_def assms)

subsection \<open>The parity stripper\<close>

text \<open>
  What the loop leaves at every address, provided the destination does not start inside
  the source after its first byte: then no store hits a byte that is still to be read.
\<close>

lemma strip_loop_spec:
  assumes "r \<le> k \<or> k + 7 \<le> r"
  shows "strip_loop r k i lsbs h a =
     (if r + i \<le> a \<and> a < r + 7
      then (h (k + (a - r)) AND 0xfe) OR (drop_bit (a - r - i) lsbs AND 1)
      else h a)"
  using assms
proof (induction r k i lsbs h rule: strip_loop.induct)
  case (1 r k i lsbs h)
  show ?case
  proof (cases "i < 7")
    case False
    then have "strip_loop r k i lsbs h a = h a" by (subst strip_loop.simps) simp
    moreover have "\<not> (r + i \<le> a \<and> a < r + 7)" using False by arith
    ultimately show ?thesis by (simp only: if_False)
  next
    case True
    let ?h' = "h(r + i := (h (k + i) AND 0xfe) OR (lsbs AND 0x1))"
    have step: "strip_loop r k i lsbs h a = strip_loop r k (i + 1) (drop_bit 1 lsbs) ?h' a"
      using True by (subst strip_loop.simps) simp
    have IH: "strip_loop r k (i + 1) (drop_bit 1 lsbs) ?h' a =
      (if r + (i + 1) \<le> a \<and> a < r + 7
       then (?h' (k + (a - r)) AND 0xfe) OR (drop_bit (a - r - (i + 1)) (drop_bit 1 lsbs) AND 1)
       else ?h' a)"
      using "1.IH" [OF True "1.prems"] .
    show ?thesis
    proof (cases "r + (i + 1) \<le> a \<and> a < r + 7")
      case inside: True
      then have ne: "k + (a - r) \<noteq> r + i" using "1.prems" by arith
      have "a - r - (i + 1) + 1 = a - r - i" using inside by arith
      then have db: "drop_bit (a - r - (i + 1)) (drop_bit 1 lsbs) = drop_bit (a - r - i) lsbs"
        by (simp add: drop_bit_drop_bit add.commute)
      show ?thesis using inside ne db step IH by simp
    next
      case outside: False
      show ?thesis
      proof (cases "a = r + i")
        case True
        then show ?thesis using outside step IH \<open>i < 7\<close> by simp
      next
        case False
        then show ?thesis using outside step IH by auto
      qed
    qed
  qed
qed

lemma strip_spec:
  assumes "r \<le> k \<or> k + 7 \<le> r"
  shows "des3_strip_parity_bits r k h a =
     (if r \<le> a \<and> a < r + 7
      then (h (k + (a - r)) AND 0xfe) OR (drop_bit (a - r) (drop_bit 1 (h (k + 7))) AND 1)
      else h a)"
  unfolding des3_strip_parity_bits_def using strip_loop_spec [OF assms, of 0] by simp

text \<open>
  Claim C9. For every 8-byte input \<open>k\<close>, the parity stripper writes exactly 7 bytes, and
  output byte \<open>i\<close> (for \<open>i\<close> from 0 to 6) is \<open>k[i]\<close> with its low bit cleared, or-ed with
  bit \<open>i\<close> of \<open>k[7] >> 1\<close>: \<open>r[i] = (k[i] & 0xfe) | (((k[7] >> 1) >> i) & 1)\<close>. The input
  is read from the memory before the call; the destination may be the source itself, as
  in \<^verbatim>\<open>derive_key\<close>, or lie below it or behind its first 7 bytes. Every address outside
  the 7 destination bytes keeps its content.
\<close>

theorem des3_strip_parity_bits_bytes:
  assumes "random \<le> key \<or> key + 7 \<le> random"
  shows "load (des3_strip_parity_bits random key h) random 7 =
           map (\<lambda>i. (h (key + i) AND 0xfe) OR (drop_bit i (drop_bit 1 (h (key + 7))) AND 1))
             [0..<7] \<and>
         (\<forall>a. a < random \<or> random + 7 \<le> a \<longrightarrow> des3_strip_parity_bits random key h a = h a)"
proof
  show "load (des3_strip_parity_bits random key h) random 7 =
           map (\<lambda>i. (h (key + i) AND 0xfe) OR (drop_bit i (drop_bit 1 (h (key + 7))) AND 1))
             [0..<7]"
    unfolding load_def
  proof (rule nth_equalityI)
    show "length (map (des3_strip_parity_bits random key h) [random..<random + 7]) =
          length (map (\<lambda>i. (h (key + i) AND 0xfe) OR
                             (drop_bit i (drop_bit 1 (h (key + 7))) AND 1)) [0..<7])"
      by simp
  next
    fix i assume "i < length (map (des3_strip_parity_bits random key h) [random..<random + 7])"
    then have i: "i < 7" by simp
    then show "map (des3_strip_parity_bits random key h) [random..<random + 7] ! i =
        map (\<lambda>i. (h (key + i) AND 0xfe) OR (drop_bit i (drop_bit 1 (h (key + 7))) AND 1))
          [0..<7] ! i"
      by (simp add: strip_spec [OF assms])
  qed
  show "\<forall>a. a < random \<or> random + 7 \<le> a \<longrightarrow> des3_strip_parity_bits random key h a = h a"
    by (auto simp add: strip_spec [OF assms])
qed

theorem des3_strip_parity_bits_bytes_witness:
  "((0::nat) \<le> 0 \<or> (0::nat) + 7 \<le> 0) \<and>
   load ex_heap 0 8 = [11, 48, 85, 122, 159, 196, 233, 14] \<and>
   load (des3_strip_parity_bits 0 0 ex_heap) 0 7 = [11, 49, 85, 122, 158, 196, 232]"
proof -
  have "load ex_heap 0 8 = [11, 48, 85, 122, 159, 196, 233, 14]"
    by (simp add: load_def ex_heap_def upt_0_8)
  then show ?thesis
    using des3_strip_parity_bits_bytes [of 0 0 ex_heap]
    by (simp add: upt_0_7 ex_heap_def)
qed

subsection \<open>The unweaver\<close>

text \<open>
  The loop runs \<open>(len - 1) div 8\<close> times. With the destination at or below the source,
  or behind it, it leaves the stripped bytes of the blocks it visited and nothing else.
\<close>

lemma stripped_byte_shift: "stripped_byte h (k + 8) n = stripped_byte h k (n + 7)"
proof -
  have "(n + 7) div 7 = n div 7 + 1" "(n + 7) mod 7 = n mod 7" by simp_all
  then show ?thesis by (simp add: stripped_byte_def add.assoc)
qed

lemma stripped_byte_cong:
  assumes "\<And>b. k \<le> b \<Longrightarrow> b < k + 8 * (n div 7) + 8 \<Longrightarrow> h1 b = h2 b"
  shows "stripped_byte h1 k n = stripped_byte h2 k n"
proof -
  have "n mod 7 < 7" by simp
  then have "h1 (k + 8 * (n div 7) + n mod 7) = h2 (k + 8 * (n div 7) + n mod 7)"
    by (intro assms) arith+
  moreover have "h1 (k + 8 * (n div 7) + 7) = h2 (k + 8 * (n div 7) + 7)"
    by (intro assms) arith+
  ultimately show ?thesis by (simp add: stripped_byte_def)
qed

lemma key_to_random_loop_spec:
  assumes "r \<le> k \<or> k + len \<le> r"
  shows "key_to_random_loop r k len nl h =
     (\<lambda>a. if r \<le> a \<and> a < r + 7 * ((len - 1) div 8) then stripped_byte h k (a - r) else h a,
      nl + 7 * ((len - 1) div 8))"
  using assms
proof (induction r k len nl h rule: key_to_random_loop.induct)
  case (1 r k len nl h)
  show ?case
  proof (cases "len > 8")
    case False
    then have "(len - 1) div 8 = 0" by simp
    moreover have "key_to_random_loop r k len nl h = (h, nl)"
      using False by (subst key_to_random_loop.simps) simp
    ultimately show ?thesis by (auto simp add: fun_eq_iff)
  next
    case True
    define h1 where "h1 = des3_strip_parity_bits r k h"
    define m where "m = (len - 8 - 1) div 8"
    have m: "(len - 1) div 8 = m + 1" using True unfolding m_def by arith
    have bound: "8 * m + 9 \<le> len" using True unfolding m_def by arith
    have ok: "r \<le> k \<or> k + 7 \<le> r" using "1.prems" True by arith
    have h1: "h1 a = (if r \<le> a \<and> a < r + 7
        then (h (k + (a - r)) AND 0xfe) OR (drop_bit (a - r) (drop_bit 1 (h (k + 7))) AND 1)
        else h a)" for a
      unfolding h1_def by (rule strip_spec [OF ok])
    have pre: "r + 7 \<le> k + 8 \<or> k + 8 + (len - 8) \<le> r + 7" using "1.prems" True by arith
    have step: "key_to_random_loop r k len nl h =
        key_to_random_loop (r + 7) (k + 8) (len - 8) (nl + 7) h1"
      using True unfolding h1_def by (subst key_to_random_loop.simps) simp
    have IH: "key_to_random_loop (r + 7) (k + 8) (len - 8) (nl + 7) h1 =
       (\<lambda>a. if r + 7 \<le> a \<and> a < r + 7 + 7 * m then stripped_byte h1 (k + 8) (a - (r + 7)) else h1 a,
        nl + 7 + 7 * m)"
      using "1.IH" [OF True pre] unfolding h1_def m_def .
    have pt: "(if r + 7 \<le> a \<and> a < r + 7 + 7 * m then stripped_byte h1 (k + 8) (a - (r + 7)) else h1 a)
        = (if r \<le> a \<and> a < r + 7 * (m + 1) then stripped_byte h k (a - r) else h a)" for a
    proof (cases "r + 7 \<le> a \<and> a < r + 7 + 7 * m")
      case later: True
      define n where "n = a - (r + 7)"
      have n: "n < 7 * m" "a - r = n + 7" using later unfolding n_def by arith+
      have "n div 7 < m" using n(1) by arith
      then have rng: "8 * (n div 7) + 8 \<le> 8 * m" by arith
      have "stripped_byte h1 (k + 8) n = stripped_byte h (k + 8) n"
      proof (rule stripped_byte_cong)
        fix b assume b: "k + 8 \<le> b" "b < k + 8 + 8 * (n div 7) + 8"
        have "\<not> (r \<le> b \<and> b < r + 7)" using b rng bound "1.prems" by arith
        then show "h1 b = h b" unfolding h1 by (simp only: if_False)
      qed
      moreover have "r \<le> a \<and> a < r + 7 * (m + 1)" using later by arith
      ultimately show ?thesis using later n(2) unfolding n_def [symmetric]
        by (simp only: if_P if_True stripped_byte_shift)
    next
      case notlater: False
      show ?thesis
      proof (cases "r \<le> a \<and> a < r + 7")
        case first: True
        then have "a - r < 7" by arith
        then have "(a - r) div 7 = 0" "(a - r) mod 7 = a - r" by simp_all
        then have "stripped_byte h k (a - r) = h1 a"
          using first by (simp add: stripped_byte_def h1)
        moreover have "r \<le> a \<and> a < r + 7 * (m + 1)" using first by arith
        ultimately show ?thesis using notlater by (simp only: if_not_P if_P if_False if_True)
      next
        case False
        then have "\<not> (r \<le> a \<and> a < r + 7 * (m + 1))" using notlater by arith
        moreover have "h1 a = h a" using False unfolding h1 by (simp only: if_False)
        ultimately show ?thesis using notlater by (simp only: if_not_P if_False)
      qed
    qed
    show ?thesis unfolding step IH m using pt by (simp add: fun_eq_iff)
  qed
qed

lemma key_to_random_loop_len:
  "snd (key_to_random_loop r k len nl h) = nl + 7 * ((len - 1) div 8)"
proof (induction r k len nl h rule: key_to_random_loop.induct)
  case (1 r k len nl h)
  show ?case
  proof (cases "len > 8")
    case False
    then have "(len - 1) div 8 = 0" by simp
    moreover have "key_to_random_loop r k len nl h = (h, nl)"
      using False by (subst key_to_random_loop.simps) simp
    ultimately show ?thesis by simp
  next
    case True
    have "(len - 1) div 8 = (len - 8 - 1) div 8 + 1" using True by arith
    moreover have "key_to_random_loop r k len nl h =
        key_to_random_loop (r + 7) (k + 8) (len - 8) (nl + 7) (des3_strip_parity_bits r k h)"
      using True by (subst key_to_random_loop.simps) simp
    ultimately show ?thesis using "1.IH" [OF True] by simp
  qed
qed

text \<open>
  Claim C1. For every input buffer of \<open>8n\<close> bytes (\<open>n \<ge> 1\<close>) the unweaver is to produce
  exactly \<open>7n\<close> bytes, the stripped blocks in order. The loop condition is
  \<^verbatim>\<open>len > 8\<close>, so the last block is never visited: an input of \<open>n + 1\<close> blocks yields
  \<open>7n\<close> bytes, not \<open>7(n + 1)\<close>, against the function's own comment that three 64-bit keys
  give a 168-bit string.
\<close>

theorem des3_key_to_random_skips_last_block:
  "snd (des3_key_to_random random key (8 * Suc n) h) = 7 * n \<and>
   snd (des3_key_to_random random key (8 * Suc n) h) \<noteq> 7 * Suc n"
proof -
  have "(8 * Suc n - 1) div 8 = n" by arith
  then show ?thesis by (simp add: des3_key_to_random_def key_to_random_loop_len)
qed

lemma stripped_byte_copy:
  assumes "load h k' len = load h k len" "8 * (n div 7) + 8 \<le> len"
  shows "stripped_byte h k' n = stripped_byte h k n"
proof -
  have "n mod 7 < 7" by simp
  then have "8 * (n div 7) + n mod 7 < len" "8 * (n div 7) + 7 < len"
    using assms(2) by arith+
  then have "h (k' + (8 * (n div 7) + n mod 7)) = h (k + (8 * (n div 7) + n mod 7))"
    "h (k' + (8 * (n div 7) + 7)) = h (k + (8 * (n div 7) + 7))"
    using load_eqD [OF assms(1)] by blast+
  then show ?thesis by (simp add: stripped_byte_def add.assoc)
qed

text \<open>
  Claim C10. The in-place unweave of \<^verbatim>\<open>derive_key\<close>, where the output pointer is the
  input pointer, gives the same length and the same output bytes as the unweave of a
  copy of the input into a buffer that does not overlap that copy.
\<close>

theorem des3_key_to_random_in_place:
  assumes copy: "load h key' len = load h key len"
    and apart: "random + len \<le> key' \<or> key' + len \<le> random"
  shows "snd (des3_key_to_random key key len h) = snd (des3_key_to_random random key' len h) \<and>
         load (fst (des3_key_to_random key key len h)) key
              (snd (des3_key_to_random key key len h)) =
         load (fst (des3_key_to_random random key' len h)) random
              (snd (des3_key_to_random random key' len h))"
proof -
  define m where "m = (len - 1) div 8"
  have m: "8 * m \<le> len" unfolding m_def by arith
  have inplace: "des3_key_to_random key key len h =
      (\<lambda>a. if key \<le> a \<and> a < key + 7 * m then stripped_byte h key (a - key) else h a, 7 * m)"
    unfolding des3_key_to_random_def m_def
    using key_to_random_loop_spec [of key key len 0 h] by simp
  have "random \<le> key' \<or> key' + len \<le> random" using apart by arith
  then have outplace: "des3_key_to_random random key' len h =
      (\<lambda>a. if random \<le> a \<and> a < random + 7 * m then stripped_byte h key' (a - random) else h a,
       7 * m)"
    unfolding des3_key_to_random_def m_def
    using key_to_random_loop_spec [of random key' len 0 h] by simp
  have "load (fst (des3_key_to_random key key len h)) key (7 * m) =
        load (fst (des3_key_to_random random key' len h)) random (7 * m)"
  proof (rule nth_equalityI)
    show "length (load (fst (des3_key_to_random key key len h)) key (7 * m)) =
          length (load (fst (des3_key_to_random random key' len h)) random (7 * m))"
      by (simp add: load_def)
  next
    fix i assume "i < length (load (fst (des3_key_to_random key key len h)) key (7 * m))"
    then have i: "i < 7 * m" by (simp add: load_def)
    then have "i div 7 < m" by arith
    then have "8 * (i div 7) + 8 \<le> len" using m by arith
    then have "stripped_byte h key' i = stripped_byte h key i"
      by (rule stripped_byte_copy [OF copy])
    then show "load (fst (des3_key_to_random key key len h)) key (7 * m) ! i =
               load (fst (des3_key_to_random random key' len h)) random (7 * m) ! i"
      using i by (simp add: load_nth inplace outplace)
  qed
  then show ?thesis by (simp add: inplace outplace)
qed

theorem des3_key_to_random_in_place_witness:
  "load ex_heap 200 24 = load ex_heap 0 24 \<and>
   ((100::nat) + 24 \<le> 200 \<or> (200::nat) + 24 \<le> 100) \<and>
   snd (des3_key_to_random 0 0 24 ex_heap) = 14 \<and>
   snd (des3_key_to_random 100 200 24 ex_heap) = 14 \<and>
   load (fst (des3_key_to_random 0 0 24 ex_heap)) 0 14 =
     load (fst (des3_key_to_random 100 200 24 ex_heap)) 100 14"
proof -
  have copy: "load ex_heap 200 24 = load ex_heap 0 24"
    by (rule load_eqI) (simp add: ex_heap_def)
  have len: "snd (des3_key_to_random 0 0 24 ex_heap) = 14"
    by (simp add: des3_key_to_random_def key_to_random_loop_len)
  show ?thesis
    using des3_key_to_random_in_place [of ex_heap 200 24 0 100] copy len by simp
qed

subsection \<open>Odd parity\<close>

lemma popcount_unfold:
  "popcount b = of_bool (bit b 0) + of_bool (bit b 1) + of_bool (bit b 2) + of_bool (bit b 3)
     + of_bool (bit b 4) + of_bool (bit b 5) + of_bool (bit b 6) + of_bool (bit b 7)"
  by (simp add: popcount_def upt_0_8)

lemma bit_fe: "bit (0xfe :: byte) n \<longleftrightarrow> 0 < n \<and> n < 8"
proof -
  have "(0xfe :: byte) = NOT 1" by simp
  then have "bit (0xfe :: byte) n \<longleftrightarrow> bit (NOT 1 :: byte) n" by (simp only:)
  also have "\<dots> \<longleftrightarrow> 0 < n \<and> n < 8" by (auto simp add: bit_not_iff bit_1_iff)
  finally show ?thesis .
qed

lemma popcount_set_low:
  "popcount ((b AND 0xfe) OR 1) = Suc (popcount (b AND 0xfe))"
  by (simp add: popcount_unfold bit_or_iff bit_and_iff bit_fe bit_1_iff)

lemma odd_parity_byte_odd: "has_odd_parity (odd_parity_byte b)"
  by (simp add: has_odd_parity_def odd_parity_byte_def popcount_set_low)

subsection \<open>The key derivation function\<close>

lemma kdf_data_eq: "kdf_data i = kdf_input_string i"
  by (simp add: kdf_data_def kdf_input_string_def be32_def)

lemma length_kdf_data: "length (kdf_data i) = 11"
  by (simp add: kdf_data_def)

lemma kdf_loop_find:
  assumes md: "\<And>m. HMAC E key m = HMAC_md (dgst key m)"
    and len: "\<And>m. 8 \<le> length (dgst key m)"
  shows "kdf_loop E key i buf =
     (case find (\<lambda>c. \<not> DES_is_weak_key E c)
             (map (\<lambda>i. DES_set_odd_parity (take 8 (dgst key (kdf_input_string i)))) [i..<256]) of
        Some c \<Rightarrow> Inr c
      | None \<Rightarrow> Inl KdfExhausted)"
proof (induction "256 - i" arbitrary: i buf)
  case 0
  then have "\<not> i \<le> 255" "[i..<256] = []" by simp_all
  then show ?case by (subst kdf_loop.simps) simp
next
  case (Suc n)
  then have i: "i \<le> 255" and upt: "[i..<256] = i # [i + 1..<256]"
    by (simp_all add: upt_conv_Cons)
  have hm: "kdf_hmac E key i buf = Inr (take 8 (dgst key (kdf_input_string i)))"
    using len [of "kdf_input_string i"] by (simp add: kdf_hmac_def md kdf_data_eq)
  define des where "des = DES_set_odd_parity (take 8 (dgst key (kdf_input_string i)))"
  have unfold: "kdf_loop E key i buf =
      (if \<not> DES_is_weak_key E des then Inr des else kdf_loop E key (i + 1) des)"
    using i by (subst kdf_loop.simps) (simp add: hm des_def Let_def)
  have IH: "kdf_loop E key (i + 1) des =
     (case find (\<lambda>c. \<not> DES_is_weak_key E c)
             (map (\<lambda>i. DES_set_odd_parity (take 8 (dgst key (kdf_input_string i)))) [i + 1..<256]) of
        Some c \<Rightarrow> Inr c
      | None \<Rightarrow> Inl KdfExhausted)"
    using Suc.hyps(2) by (intro Suc.hyps(1)) simp
  show ?case unfolding unfold IH upt by (simp add: des_def)
qed

text \<open>
  Claim C2. For every HMAC key the derivation runs the counter \<open>i\<close> from 1 to 255; for
  each \<open>i\<close> it takes the keyed hash of the 11-byte string made of the byte \<open>i\<close>, the 6-byte
  label "rxkad" with its NUL and the 4-byte big-endian constant 64, keeps the first 8
  digest bytes, sets odd parity on each, and accepts the first candidate that is not a
  weak or semi-weak key; if no counter gives one, the result is \<open>KdfExhausted\<close>. Stated
  for any keyed hash that always delivers a digest of at least 8 bytes, as HMAC-MD5 does
  with its 16, and for any weak-key test.
\<close>

theorem key_derivation_function_refines:
  assumes "\<And>m. HMAC E (keyblock_bytes h creds) m = HMAC_md (hmac_md5 (keyblock_bytes h creds) m)"
    and "\<And>m. 8 \<le> length (hmac_md5 (keyblock_bytes h creds) m)"
  shows "key_derivation_function E h creds =
           kdf_spec hmac_md5 (DES_is_weak_key E) (keyblock_bytes h creds)"
  unfolding key_derivation_function_def kdf_spec_def
  by (rule kdf_loop_find [where dgst = hmac_md5, OF assms])

lemma replicate_16: "replicate 16 x = [x, x, x, x, x, x, x, x, x, x, x, x, x, x, x, x]"
  by (simp add: numeral_eq_Suc)

lemma ex_env_kdf:
  "key_derivation_function ex_env h creds = Inr [2, 2, 2, 2, 2, 2, 2, 2]"
  unfolding key_derivation_function_def
  by (simp add: kdf_loop.simps kdf_hmac_def kdf_data_def
        ex_env_def ex_md5_def DES_set_odd_parity_def odd_parity_byte_def popcount_unfold
        des_weak_keys_def Let_def replicate_16)

lemma ex_weak_candidate:
  "DES_is_weak_key ex_env_weak (DES_set_odd_parity (take 8 (ex_md5_zero key m)))"
  by (simp add: ex_env_weak_def ex_md5_zero_def DES_set_odd_parity_def odd_parity_byte_def
      popcount_unfold des_weak_keys_def replicate_16)

lemma ex_weak_spec:
  "kdf_spec ex_md5_zero (DES_is_weak_key ex_env_weak) key = Inl KdfExhausted"
proof -
  have "find (\<lambda>c. \<not> DES_is_weak_key ex_env_weak c)
          (map (\<lambda>i. DES_set_odd_parity (take 8 (ex_md5_zero key (kdf_input_string i))))
             [1..<256]) = None"
    unfolding find_None_iff by (auto simp: ex_weak_candidate)
  then show ?thesis by (simp add: kdf_spec_def)
qed

theorem key_derivation_function_refines_witness:
  "(\<forall>m. HMAC ex_env (keyblock_bytes ex_heap (ex_creds 18 16)) m =
         HMAC_md (ex_md5 (keyblock_bytes ex_heap (ex_creds 18 16)) m)) \<and>
   (\<forall>m. 8 \<le> length (ex_md5 (keyblock_bytes ex_heap (ex_creds 18 16)) m)) \<and>
   kdf_spec ex_md5 (DES_is_weak_key ex_env) (keyblock_bytes ex_heap (ex_creds 18 16)) =
     Inr [2, 2, 2, 2, 2, 2, 2, 2] \<and>
   key_derivation_function ex_env ex_heap (ex_creds 18 16) = Inr [2, 2, 2, 2, 2, 2, 2, 2] \<and>
   (\<forall>m. HMAC ex_env_weak (keyblock_bytes ex_heap (ex_creds 18 16)) m =
         HMAC_md (ex_md5_zero (keyblock_bytes ex_heap (ex_creds 18 16)) m)) \<and>
   (\<forall>m. 8 \<le> length (ex_md5_zero (keyblock_bytes ex_heap (ex_creds 18 16)) m)) \<and>
   key_derivation_function ex_env_weak ex_heap (ex_creds 18 16) = Inl KdfExhausted"
proof -
  have hm: "HMAC ex_env (keyblock_bytes ex_heap (ex_creds 18 16)) m =
         HMAC_md (ex_md5 (keyblock_bytes ex_heap (ex_creds 18 16)) m)" for m
    by (simp add: ex_env_def)
  have ln: "8 \<le> length (ex_md5 (keyblock_bytes ex_heap (ex_creds 18 16)) m)" for m
    by (simp add: ex_md5_def)
  have run: "key_derivation_function ex_env ex_heap (ex_creds 18 16) =
      Inr [2, 2, 2, 2, 2, 2, 2, 2]"
    by (rule ex_env_kdf)
  have hm0: "HMAC ex_env_weak (keyblock_bytes ex_heap (ex_creds 18 16)) m =
         HMAC_md (ex_md5_zero (keyblock_bytes ex_heap (ex_creds 18 16)) m)" for m
    by (simp add: ex_env_weak_def)
  have ln0: "8 \<le> length (ex_md5_zero (keyblock_bytes ex_heap (ex_creds 18 16)) m)" for m
    by (simp add: ex_md5_zero_def)
  show ?thesis
    using key_derivation_function_refines [of ex_env ex_heap "ex_creds 18 16" ex_md5,
        OF hm ln]
      key_derivation_function_refines [of ex_env_weak ex_heap "ex_creds 18 16" ex_md5_zero,
        OF hm0 ln0]
      hm ln run hm0 ln0 ex_weak_spec
    by simp
qed

lemma kdf_loop_result:
  assumes "kdf_loop E key i buf = Inr sk" "length buf = 8"
  shows "length sk = 8 \<and> list_all has_odd_parity sk \<and> \<not> DES_is_weak_key E sk"
  using assms
proof (induction E key i buf rule: kdf_loop.induct)
  case (1 E key i buf)
  from "1.prems"(1) have i: "i \<le> 255"
    by (subst (asm) kdf_loop.simps) (simp split: if_splits)
  from "1.prems"(1) i obtain md where md: "kdf_hmac E key i buf = Inr md"
    by (subst (asm) kdf_loop.simps) (simp split: sum.splits)
  have lmd: "length md = 8"
    using md "1.prems"(2) by (auto simp: kdf_hmac_def split: hmac_result.splits if_splits)
  define des where "des = DES_set_odd_parity md"
  have ldes: "length des = 8" by (simp add: des_def DES_set_odd_parity_def lmd)
  have unfold: "kdf_loop E key i buf =
      (if \<not> DES_is_weak_key E des then Inr des else kdf_loop E key (i + 1) des)"
    using i by (subst kdf_loop.simps) (simp add: md des_def Let_def)
  show ?case
  proof (cases "DES_is_weak_key E des")
    case False
    then have "sk = des" using "1.prems"(1) unfold by simp
    then show ?thesis using False ldes
      by (simp add: des_def DES_set_odd_parity_def list_all_iff odd_parity_byte_odd)
  next
    case True
    then have "kdf_loop E key (i + 1) des = Inr sk" using "1.prems"(1) unfold by simp
    then show ?thesis using "1.IH" [OF i md des_def _ _ ldes] True by simp
  qed
qed

subsection \<open>The enctype switch\<close>

lemma enctype_table_iff:
  "enctype \<in> set enctype_table \<longleftrightarrow> 0 \<le> enctype \<and> enctype \<le> 16"
  unfolding enctype_table_def ENCTYPE_defs by (simp, arith)

lemma enctype_switch_just_copy:
  "enctype_switch enctype len = just_copy \<longleftrightarrow>
     enctype \<in> {ENCTYPE_DES_CBC_CRC, ENCTYPE_DES_CBC_MD4, ENCTYPE_DES_CBC_MD5}"
  by (simp add: enctype_switch_def ENCTYPE_defs)

lemma enctype_switch_default:
  assumes "enctype \<notin> set enctype_table"
  shows "enctype_switch enctype len =
     (if len < 7 then key_too_short else if enctype < 0 then not_supported else goto_derive_key)"
  using assms by (simp add: enctype_table_def enctype_switch_def)

text \<open>
  Claim C6. For the single-DES enctypes with CRC, MD4 or MD5 checksums: if the key block
  is exactly 8 bytes long, \<^verbatim>\<open>derive_key\<close> copies these 8 bytes unchanged into the session
  key; for any other length it fails with \<open>InvalidKeyLength\<close> and there is no session
  key.
\<close>

theorem derive_key_just_copy:
  assumes "keyblock_enctype creds \<in> {ENCTYPE_DES_CBC_CRC, ENCTYPE_DES_CBC_MD4, ENCTYPE_DES_CBC_MD5}"
  shows "derive_key E h creds =
     (if keyblock_length creds = 8 then Inr (load h (keyblock_contents creds) 8, h, creds)
      else Inl InvalidKeyLength)"
proof -
  have "enctype_switch (keyblock_enctype creds) (keyblock_length creds) = just_copy"
    using assms by (simp only: enctype_switch_just_copy)
  then show ?thesis by (simp add: derive_key_def at_just_copy_def)
qed

theorem derive_key_just_copy_witness:
  "keyblock_enctype (ex_creds 1 8) \<in> {ENCTYPE_DES_CBC_CRC, ENCTYPE_DES_CBC_MD4, ENCTYPE_DES_CBC_MD5} \<and>
   derive_key ex_env ex_heap (ex_creds 1 8) =
     Inr ([11, 48, 85, 122, 159, 196, 233, 14], ex_heap, ex_creds 1 8) \<and>
   keyblock_enctype (ex_creds 3 16) \<in> {ENCTYPE_DES_CBC_CRC, ENCTYPE_DES_CBC_MD4, ENCTYPE_DES_CBC_MD5} \<and>
   derive_key ex_env ex_heap (ex_creds 3 16) = Inl InvalidKeyLength"
proof -
  have "load ex_heap 0 8 = [11, 48, 85, 122, 159, 196, 233, 14]"
    by (simp add: load_def ex_heap_def upt_0_8)
  then show ?thesis
    using derive_key_just_copy [of "ex_creds 1 8" ex_env ex_heap]
      derive_key_just_copy [of "ex_creds 3 16" ex_env ex_heap]
    by (simp add: ex_creds_def ENCTYPE_defs)
qed

text \<open>
  Claim C5, as amended. For every enctype that is not a case label of the switch: a key
  shorter than 7 bytes is rejected as \<open>KeyTooShort\<close> whatever the sign of the enctype;
  with at least 7 bytes a negative enctype is rejected as \<open>Unsupported\<close> and any other
  goes directly to the key derivation. The length is tested first.
\<close>

theorem derive_key_default:
  assumes "keyblock_enctype creds \<notin> set enctype_table"
  shows "enctype_switch (keyblock_enctype creds) (keyblock_length creds) =
           (if keyblock_length creds < 7 then key_too_short
            else if keyblock_enctype creds < 0 then not_supported
            else goto_derive_key) \<and>
         derive_key E h creds =
           (if keyblock_length creds < 7 then Inl KeyTooShort
            else if keyblock_enctype creds < 0 then Inl Unsupported
            else at_derive_key E h creds)"
  by (simp add: derive_key_def enctype_switch_default [OF assms])

text \<open>
  The claim as first stated promises \<open>Unsupported\<close> for every negative enctype. Enctype
  \<open>-1\<close> with a 3-byte key is rejected as \<open>KeyTooShort\<close>.
\<close>

theorem derive_key_default_counterexample:
  "(- 1) \<notin> set enctype_table \<and> (- 1 :: int) < 0 \<and>
   enctype_switch (- 1) 3 = key_too_short \<and>
   derive_key ex_env ex_heap (ex_creds (- 1) 3) = Inl KeyTooShort"
  by (simp add: enctype_table_iff enctype_switch_def derive_key_def ex_creds_def ENCTYPE_defs)

theorem derive_key_default_witness:
  "keyblock_enctype (ex_creds (- 1) 16) \<notin> set enctype_table \<and>
   derive_key ex_env ex_heap (ex_creds (- 1) 16) = Inl Unsupported \<and>
   keyblock_enctype (ex_creds 18 6) \<notin> set enctype_table \<and>
   derive_key ex_env ex_heap (ex_creds 18 6) = Inl KeyTooShort \<and>
   keyblock_enctype (ex_creds 18 16) \<notin> set enctype_table \<and>
   enctype_switch (keyblock_enctype (ex_creds 18 16)) (keyblock_length (ex_creds 18 16)) =
     goto_derive_key"
  using derive_key_default [of "ex_creds (- 1) 16" ex_env ex_heap]
    derive_key_default [of "ex_creds 18 6" ex_env ex_heap]
    derive_key_default [of "ex_creds 18 16" ex_env ex_heap]
  by (simp add: ex_creds_def enctype_table_iff)

subsection \<open>The session key\<close>

lemma at_derive_key_result:
  assumes "at_derive_key E h creds = Inr (sk, h', creds')"
  shows "h' = h \<and> creds' = creds \<and> length sk = 8 \<and> list_all has_odd_parity sk \<and>
         \<not> DES_is_weak_key E sk"
proof -
  from assms have k: "key_derivation_function E h creds = Inr sk" and "h' = h" "creds' = creds"
    by (auto simp: at_derive_key_def split: sum.splits)
  moreover from k have "length sk = 8 \<and> list_all has_odd_parity sk \<and> \<not> DES_is_weak_key E sk"
    unfolding key_derivation_function_def by (rule kdf_loop_result) simp
  ultimately show ?thesis by simp
qed

lemma derive_key_cases:
  assumes "derive_key E h creds = Inr (sk, h', creds')"
  obtains
    (copy) "enctype_switch (keyblock_enctype creds) (keyblock_length creds) = just_copy"
      "keyblock_length creds = 8" "sk = load h (keyblock_contents creds) 8" "h' = h" "creds' = creds"
  | (unweave) "enctype_switch (keyblock_enctype creds) (keyblock_length creds) = des3_discard_parity"
      "keyblock_length creds mod 8 = 0"
      "at_derive_key E
         (fst (des3_key_to_random (keyblock_contents creds) (keyblock_contents creds)
                (keyblock_length creds) h))
         (creds\<lparr>keyblock_length :=
            snd (des3_key_to_random (keyblock_contents creds) (keyblock_contents creds)
                  (keyblock_length creds) h)\<rparr>) = Inr (sk, h', creds')"
  | (direct) "enctype_switch (keyblock_enctype creds) (keyblock_length creds) = goto_derive_key"
      "at_derive_key E h creds = Inr (sk, h', creds')"
proof (cases "enctype_switch (keyblock_enctype creds) (keyblock_length creds)")
  case just_copy
  then have "at_just_copy h creds (keyblock_length creds) = Inr (sk, h', creds')"
    using assms by (simp add: derive_key_def Let_def)
  then have "keyblock_length creds = 8 \<and> sk = load h (keyblock_contents creds) 8 \<and> h' = h \<and>
      creds' = creds"
    by (auto simp add: at_just_copy_def split: if_splits)
  then show ?thesis by (intro copy [OF just_copy]) simp_all
next
  case des3_discard_parity
  then have "at_des3_discard_parity E h creds (keyblock_length creds) = Inr (sk, h', creds')"
    using assms by (simp add: derive_key_def Let_def)
  then have "keyblock_length creds mod 8 = 0 \<and>
      at_derive_key E
         (fst (des3_key_to_random (keyblock_contents creds) (keyblock_contents creds)
                (keyblock_length creds) h))
         (creds\<lparr>keyblock_length :=
            snd (des3_key_to_random (keyblock_contents creds) (keyblock_contents creds)
                  (keyblock_length creds) h)\<rparr>) = Inr (sk, h', creds')"
    by (simp add: at_des3_discard_parity_def case_prod_beta split: if_splits)
  then show ?thesis by (intro unweave [OF des3_discard_parity]) simp_all
next
  case goto_derive_key
  then have "at_derive_key E h creds = Inr (sk, h', creds')"
    using assms by (simp add: derive_key_def Let_def)
  then show ?thesis by (intro direct [OF goto_derive_key])
next
  case not_supported
  then show ?thesis using assms by (simp add: derive_key_def Let_def)
next
  case deprecated
  then show ?thesis using assms by (simp add: derive_key_def Let_def)
next
  case key_too_short
  then show ?thesis using assms by (simp add: derive_key_def Let_def)
qed

lemma run_des3: "derive_key ex_env ex_heap (ex_creds 16 24) =
     Inr ([2, 2, 2, 2, 2, 2, 2, 2], fst (des3_key_to_random 0 0 24 ex_heap), ex_creds 16 14)"
proof -
  have sw: "enctype_switch 16 24 = des3_discard_parity"
    by (simp add: enctype_switch_def ENCTYPE_defs)
  have len: "snd (des3_key_to_random 0 0 24 ex_heap) = 14"
    by (simp add: des3_key_to_random_def key_to_random_loop_len)
  show ?thesis
    using sw len
    by (simp add: derive_key_def at_des3_discard_parity_def at_derive_key_def
        ex_env_kdf ex_creds_def Let_def case_prod_beta)
qed

lemma run_direct: "derive_key ex_env ex_heap (ex_creds 18 16) =
     Inr ([2, 2, 2, 2, 2, 2, 2, 2], ex_heap, ex_creds 18 16)"
proof -
  have "enctype_switch 18 16 = goto_derive_key"
    by (simp add: enctype_switch_def ENCTYPE_defs)
  then show ?thesis
    by (simp add: derive_key_def at_derive_key_def ex_env_kdf ex_creds_def Let_def)
qed

lemma ex_unweaved:
  "load (fst (des3_key_to_random 0 0 24 ex_heap)) 0 14 =
     [11, 49, 85, 122, 158, 196, 232, 51, 89, 124, 163, 199, 236, 16]"
  by (simp add: des3_key_to_random_def key_to_random_loop.simps des3_strip_parity_bits_def
      strip_loop.simps load_def ex_heap_def upt_rec [of 0 14] upt_rec [of "Suc _"] 
       )

text \<open>
  Claim C3, as amended. Every session key that \<^verbatim>\<open>derive_key\<close> produces through the key
  derivation, after the unweave or directly, is 8 bytes long, has odd parity in each
  byte and is not a weak or semi-weak key. The copy path hands the key block on as it
  is and promises neither.
\<close>

theorem derive_key_session_key:
  assumes "derive_key E h creds = Inr (sk, h', creds')"
    and "enctype_switch (keyblock_enctype creds) (keyblock_length creds) \<noteq> just_copy"
  shows "length sk = 8 \<and> list_all has_odd_parity sk \<and> \<not> DES_is_weak_key E sk"
  using assms(1)
proof (cases rule: derive_key_cases)
  case copy
  then show ?thesis using assms(2) by simp
next
  case unweave
  then show ?thesis using at_derive_key_result by blast
next
  case direct
  then show ?thesis using at_derive_key_result by blast
qed

text \<open>
  The claim as first stated includes the copy path. A single-DES key block of eight zero
  bytes is copied as it is, and a zero byte has even parity.
\<close>

theorem derive_key_session_key_counterexample:
  "derive_key ex_env zero_heap (ex_creds 1 8) =
     Inr ([0, 0, 0, 0, 0, 0, 0, 0], zero_heap, ex_creds 1 8) \<and>
   \<not> list_all has_odd_parity [0, 0, 0, 0, 0, 0, 0, 0]"
proof -
  have "load zero_heap 0 8 = [0, 0, 0, 0, 0, 0, 0, 0]"
    by (simp add: load_def zero_heap_def upt_0_8)
  moreover have "enctype_switch 1 8 = just_copy"
    by (simp add: enctype_switch_def ENCTYPE_defs)
  ultimately show ?thesis
    by (simp add: derive_key_def at_just_copy_def ex_creds_def Let_def has_odd_parity_def
        popcount_unfold)
qed

theorem derive_key_session_key_witness:
  "derive_key ex_env ex_heap (ex_creds 16 24) =
     Inr ([2, 2, 2, 2, 2, 2, 2, 2], fst (des3_key_to_random 0 0 24 ex_heap), ex_creds 16 14) \<and>
   enctype_switch (keyblock_enctype (ex_creds 16 24)) (keyblock_length (ex_creds 16 24)) \<noteq> just_copy \<and>
   list_all has_odd_parity [2, 2, 2, 2, 2, 2, 2, 2] \<and>
   \<not> DES_is_weak_key ex_env [2, 2, 2, 2, 2, 2, 2, 2]"
proof -
  have sw: "enctype_switch (keyblock_enctype (ex_creds 16 24)) (keyblock_length (ex_creds 16 24))
      \<noteq> just_copy"
    by (simp add: enctype_switch_def ENCTYPE_defs ex_creds_def)
  show ?thesis
    using derive_key_session_key [OF run_des3 sw] run_des3 sw by simp
qed

text \<open>
  Claim C7, as amended. When \<^verbatim>\<open>derive_key\<close> returns on the copy path or on the direct
  path, the memory and the credentials, so the key block's bytes and its recorded
  length, are as before. On the Triple-DES path the key block is unweaved in place: the
  memory is what \<^verbatim>\<open>des3_key_to_random\<close> leaves with source and destination at the key
  block, and the recorded length is the length it returns; nothing else of the
  credentials changes.
\<close>

theorem derive_key_key_material:
  assumes "derive_key E h creds = Inr (sk, h', creds')"
  shows "if enctype_switch (keyblock_enctype creds) (keyblock_length creds) = des3_discard_parity
         then h' = fst (des3_key_to_random (keyblock_contents creds) (keyblock_contents creds)
                          (keyblock_length creds) h) \<and>
              creds' = creds\<lparr>keyblock_length :=
                         snd (des3_key_to_random (keyblock_contents creds)
                               (keyblock_contents creds) (keyblock_length creds) h)\<rparr>
         else h' = h \<and> creds' = creds"
  using assms
proof (cases rule: derive_key_cases)
  case copy
  then show ?thesis by simp
next
  case unweave
  then show ?thesis using at_derive_key_result [OF unweave(3)] by simp
next
  case direct
  then show ?thesis using at_derive_key_result [OF direct(2)] by simp
qed

text \<open>
  The claim as first stated says the key material never changes. A 24-byte Triple-DES
  key comes back with recorded length 14 and with other bytes at its start.
\<close>

theorem derive_key_key_material_counterexample:
  "derive_key ex_env ex_heap (ex_creds 16 24) =
     Inr ([2, 2, 2, 2, 2, 2, 2, 2], fst (des3_key_to_random 0 0 24 ex_heap), ex_creds 16 14) \<and>
   keyblock_length (ex_creds 16 24) = 24 \<and> keyblock_length (ex_creds 16 14) = 14 \<and>
   load ex_heap 0 14 = [11, 48, 85, 122, 159, 196, 233, 14, 51, 88, 125, 162, 199, 236] \<and>
   load (fst (des3_key_to_random 0 0 24 ex_heap)) 0 14 =
     [11, 49, 85, 122, 158, 196, 232, 51, 89, 124, 163, 199, 236, 16]"
proof -
  have "load ex_heap 0 14 = [11, 48, 85, 122, 159, 196, 233, 14, 51, 88, 125, 162, 199, 236]"
    by code_simp
  then show ?thesis using run_des3 ex_unweaved by (simp add: ex_creds_def)
qed

theorem derive_key_key_material_witness:
  "derive_key ex_env ex_heap (ex_creds 18 16) =
     Inr ([2, 2, 2, 2, 2, 2, 2, 2], ex_heap, ex_creds 18 16) \<and>
   enctype_switch (keyblock_enctype (ex_creds 18 16)) (keyblock_length (ex_creds 18 16)) \<noteq>
     des3_discard_parity \<and>
   derive_key ex_env ex_heap (ex_creds 16 24) =
     Inr ([2, 2, 2, 2, 2, 2, 2, 2], fst (des3_key_to_random 0 0 24 ex_heap), ex_creds 16 14) \<and>
   enctype_switch (keyblock_enctype (ex_creds 16 24)) (keyblock_length (ex_creds 16 24)) =
     des3_discard_parity \<and>
   ex_creds 16 14 = (ex_creds 16 24)\<lparr>keyblock_length := snd (des3_key_to_random 0 0 24 ex_heap)\<rparr>"
proof -
  have "enctype_switch (keyblock_enctype (ex_creds 18 16)) (keyblock_length (ex_creds 18 16)) \<noteq>
     des3_discard_parity"
    "enctype_switch (keyblock_enctype (ex_creds 16 24)) (keyblock_length (ex_creds 16 24)) =
     des3_discard_parity"
    by (simp_all add: enctype_switch_def ENCTYPE_defs ex_creds_def)
  then show ?thesis
    using derive_key_key_material [OF run_direct] derive_key_key_material [OF run_des3]
      run_direct run_des3
    by (simp add: ex_creds_def)
qed

subsection \<open>The payload\<close>

lemma derive_key_ticket_data:
  assumes "derive_key E h creds = Inr (sk, h', creds')"
  shows "ticket_data creds' = ticket_data creds"
  using assms
proof (cases rule: derive_key_cases)
  case copy
  then show ?thesis by simp
next
  case unweave
  then show ?thesis using at_derive_key_result [OF unweave(3)] by simp
next
  case direct
  then show ?thesis using at_derive_key_result [OF direct(2)] by simp
qed

lemma sizeof_rxrpc_key_sec2_v1: "sizeof_rxrpc_key_sec2_v1 = 24"
  by (simp add: sizeof_rxrpc_key_sec2_v1_def)

text \<open>
  What \<^verbatim>\<open>main\<close> passes to \<^verbatim>\<open>add_key\<close> once \<^verbatim>\<open>derive_key\<close> has delivered a session key: one
  record with \<open>kver = 1\<close>, \<open>security_index = 2\<close>, \<open>kvno = 256\<close>, the expiry and the session
  key, the ticket bytes unchanged, and the length 24 plus \<open>N\<close> for a ticket of \<open>N\<close> bytes.
  The \<open>ticket_length\<close> field is \<open>N\<close> narrowed to 16 bits, which is \<open>N\<close> when \<open>N < 65536\<close>.
\<close>

lemma main_payload_record:
  assumes "calloc_ok E" and "derive_key E h creds = Inr (key, h', creds')"
  shows "main E h creds =
           Exit (if add_key_ret E = - 1 then 1 else 0)
             [(\<lparr>kver = 1, security_index = 2,
                ticket_length = of_nat (length (ticket_data creds)),
                expiry = times_endtime creds, kvno = 256,
                session_key = key, ticket = ticket_data creds\<rparr>,
               24 + length (ticket_data creds))] \<and>
         unat (of_nat (length (ticket_data creds)) :: 16 word) =
           length (ticket_data creds) mod 65536 \<and>
         (length (ticket_data creds) < 65536 \<longrightarrow>
            unat (of_nat (length (ticket_data creds)) :: 16 word) = length (ticket_data creds))"
proof -
  have "ticket_data creds' = ticket_data creds"
    by (rule derive_key_ticket_data [OF assms(2)])
  then have "main E h creds =
           Exit (if add_key_ret E = - 1 then 1 else 0)
             [(\<lparr>kver = 1, security_index = 2,
                ticket_length = of_nat (length (ticket_data creds)),
                expiry = times_endtime creds, kvno = 256,
                session_key = key, ticket = ticket_data creds\<rparr>,
               24 + length (ticket_data creds))]"
    using assms
    by (simp add: main_def main_payload_def Let_def sizeof_rxrpc_key_sec2_v1
        RXKAD_TKT_TYPE_KERBEROS_V5_def)
  moreover have "unat (of_nat (length (ticket_data creds)) :: 16 word) =
           length (ticket_data creds) mod 65536"
    by (simp add: unat_of_nat)
  ultimately show ?thesis by simp
qed

lemma main_payload_record_example:
  "calloc_ok ex_env \<and>
   derive_key ex_env ex_heap (ex_creds 18 16) =
     Inr ([2, 2, 2, 2, 2, 2, 2, 2], ex_heap, ex_creds 18 16) \<and>
   main ex_env ex_heap (ex_creds 18 16) =
     Exit 0 [(\<lparr>kver = 1, security_index = 2, ticket_length = 4, expiry = 1700000000,
               kvno = 256, session_key = [2, 2, 2, 2, 2, 2, 2, 2],
               ticket = [0xde, 0xad, 0xbe, 0xef]\<rparr>, 28)]"
proof -
  have ok: "calloc_ok ex_env" by (simp add: ex_env_def)
  show ?thesis
    using main_payload_record [OF ok run_direct] ok run_direct
    by (simp add: ex_creds_def ex_env_def)
qed

text \<open>
  Claim C4. For every ticket of \<open>N\<close> bytes, every expiry and every session key, the record
  handed to the key store is to have \<open>kver = 1\<close>, \<open>security_index = 2\<close>, \<open>kvno = 256\<close>, the
  given expiry and session key and a \<open>ticket_length\<close> field equal to \<open>N\<close>, followed by the
  \<open>N\<close> ticket bytes, with total length header size plus \<open>N\<close>. Line 320 assigns the
  \<^verbatim>\<open>unsigned int\<close> length to the \<^verbatim>\<open>uint16_t\<close> field without a range check: for a ticket of
  65536 bytes the field, documented as the length of \<^verbatim>\<open>ticket[]\<close>, is 0, while 65536
  ticket bytes follow and the length passed is 65560.
\<close>

theorem main_ticket_length_truncated:
  "length (ticket_data ((ex_creds 1 8)\<lparr>ticket_data := replicate 65536 0\<rparr>)) = 65536 \<and>
   main ex_env ex_heap ((ex_creds 1 8)\<lparr>ticket_data := replicate 65536 0\<rparr>) =
     Exit 0 [(\<lparr>kver = 1, security_index = 2, ticket_length = 0, expiry = 1700000000,
               kvno = 256, session_key = [11, 48, 85, 122, 159, 196, 233, 14],
               ticket = replicate 65536 0\<rparr>, 65560)]"
proof -
  have ld: "load ex_heap 0 8 = [11, 48, 85, 122, 159, 196, 233, 14]"
    by code_simp
  have sw: "enctype_switch 1 8 = just_copy"
    by (simp add: enctype_switch_def ENCTYPE_defs)
  have "derive_key ex_env ex_heap ((ex_creds 1 8)\<lparr>ticket_data := replicate 65536 0\<rparr>) =
     Inr ([11, 48, 85, 122, 159, 196, 233, 14], ex_heap,
          (ex_creds 1 8)\<lparr>ticket_data := replicate 65536 0\<rparr>)"
    using sw ld by (simp add: derive_key_def at_just_copy_def Let_def ex_creds_def)
  then show ?thesis
    by (simp add: main_def main_payload_def Let_def sizeof_rxrpc_key_sec2_v1
        RXKAD_TKT_TYPE_KERBEROS_V5_def ex_creds_def ex_env_def)
qed

subsection \<open>Failures\<close>








end
